theory Spec2Isabelle
  imports Main "HOL-Library.AList"
begin

section \<open>Values, exceptions and the third-party collaborators\<close>

text \<open>
  The authentication code of the gateway (\<^verbatim>\<open>auth.py\<close>, \<^verbatim>\<open>models.py\<close>,
  \<^verbatim>\<open>routes/auth_routes.py\<close>, \<^verbatim>\<open>app.py\<close>) is embedded function by function.
  Python values that travel inside a token payload or a request body are \<open>pyval\<close>, the
  scalar ones (JSON arrays and objects as values are outside the model); a Python
  \<^verbatim>\<open>dict\<close> with string keys is an association list, which keeps Python's insertion order.
  A \<^verbatim>\<open>datetime\<close> is the number of microseconds since the epoch (UTC) and a
  \<^verbatim>\<open>timedelta\<close> a number of microseconds, the resolution both Python types have.
  Python's datetimes end with the year 9999 (\<open>datetime_max\<close>) and begin with the year 1
  (\<open>datetime_min\<close>); arithmetic that leaves this range raises \<^verbatim>\<open>OverflowError\<close>.
\<close>

datatype pyval = PNone | PStr string | PInt int | PDatetime int

type_synonym pydict = "(string \<times> pyval) list"
type_synonym datetime = int
type_synonym timedelta = int

text \<open>The exceptions of \<^verbatim>\<open>jose\<close> that \<^verbatim>\<open>jwt.decode\<close> raises; all are \<^verbatim>\<open>JWTError\<close>s.\<close>

datatype jwt_error = JWTError | ExpiredSignatureError | JWTClaimsError

text \<open>
  What a request handler can raise: FastAPI's \<^verbatim>\<open>HTTPException\<close> (status, detail, headers),
  the validation error of a request body, the store's \<^verbatim>\<open>DuplicateKeyError\<close>, the
  \<^verbatim>\<open>OverflowError\<close> of datetime arithmetic, and any other exception coming out of a
  library call.
\<close>

datatype exn =
    HTTPException nat string "(string \<times> string) list"
  | RequestValidationError
  | DuplicateKeyError
  | OverflowError
  | OtherException string

definition datetime_min :: datetime where
  "datetime_min = - 62135596800000000"

definition datetime_max :: datetime where
  "datetime_max = 253402300799999999"

text \<open>\<^verbatim>\<open>datetime + timedelta\<close>.\<close>

definition datetime_add :: "datetime \<Rightarrow> timedelta \<Rightarrow> exn + datetime" where
  "datetime_add t d =
     (if datetime_min \<le> t + d \<and> t + d \<le> datetime_max then Inr (t + d)
      else Inl OverflowError)"

text \<open>
  The libraries the code calls but does not contain are parameters of the model:
  \<^verbatim>\<open>jose.jwt\<close> (\<open>jwt_encode\<close>, \<open>jwt_decode\<close>; the clock \<^verbatim>\<open>jwt.decode\<close> reads is its last
  argument), \<^verbatim>\<open>passlib\<close>'s \<^verbatim>\<open>CryptContext\<close> (\<open>ctx_hash\<close>, whose first argument stands for
  whatever the library draws besides the password, and \<open>ctx_verify\<close>; either may raise
  on a password it does not accept),
  \<^verbatim>\<open>bson.ObjectId\<close> (\<open>oid_is_valid\<close>, the constructor \<open>oid_of\<close>, \<^verbatim>\<open>str\<close> as \<open>oid_str\<close>) and
  pydantic's \<^verbatim>\<open>EmailStr\<close> (\<open>validate_email\<close>, the normalised address or \<open>None\<close>).
  Nothing is assumed about them.
\<close>

record ('tok, 'oid) library =
  jwt_encode :: "pydict \<Rightarrow> string \<Rightarrow> string \<Rightarrow> 'tok"
  jwt_decode :: "'tok \<Rightarrow> string \<Rightarrow> string list \<Rightarrow> datetime \<Rightarrow> jwt_error + pydict"
  ctx_hash :: "nat \<Rightarrow> string \<Rightarrow> exn + string"
  ctx_verify :: "string \<Rightarrow> string \<Rightarrow> exn + bool"
  oid_is_valid :: "pyval \<Rightarrow> bool"
  oid_of :: "pyval \<Rightarrow> 'oid"
  oid_str :: "'oid \<Rightarrow> string"
  validate_email :: "string \<Rightarrow> string option"

text \<open>\<^verbatim>\<open>config.py\<close>: of the settings only the signing secret is read by the code below.\<close>

record AppSettings =
  JWT_SECRET_KEY :: string

section \<open>\<^verbatim>\<open>auth.py\<close>\<close>

definition ALGORITHM :: string where
  "ALGORITHM = ''HS256''"

text \<open>
  \<^verbatim>\<open>getattr(settings, 'ACCESS_TOKEN_EXPIRE_MINUTES', 30)\<close>: \<^verbatim>\<open>AppSettings\<close> declares no such
  field (it is commented out) and ignores extra variables, so the default is taken.
\<close>

definition ACCESS_TOKEN_EXPIRE_MINUTES :: int where
  "ACCESS_TOKEN_EXPIRE_MINUTES = 30"

definition timedelta_minutes :: "int \<Rightarrow> timedelta" where
  "timedelta_minutes m = m * 60000000"

definition verify_password :: "('tok, 'oid) library \<Rightarrow> string \<Rightarrow> string \<Rightarrow> exn + bool" where
  "verify_password L plain_password hashed_password = ctx_verify L plain_password hashed_password"

definition get_password_hash ::
  "('tok, 'oid) library \<Rightarrow> nat \<Rightarrow> string \<Rightarrow> exn + string" where
  "get_password_hash L entropy password = ctx_hash L entropy password"

text \<open>
  \<^verbatim>\<open>if expires_delta:\<close> tests truthiness: \<^verbatim>\<open>None\<close> is false, and so is \<^verbatim>\<open>timedelta(0)\<close>.
\<close>

fun timedelta_truthy :: "timedelta option \<Rightarrow> bool" where
  "timedelta_truthy None = False"
| "timedelta_truthy (Some d) = (d \<noteq> 0)"

fun expire_at :: "timedelta option \<Rightarrow> datetime \<Rightarrow> exn + datetime" where
  "expire_at None now = datetime_add now (timedelta_minutes ACCESS_TOKEN_EXPIRE_MINUTES)"
| "expire_at (Some d) now =
     (if timedelta_truthy (Some d) then datetime_add now d
      else datetime_add now (timedelta_minutes ACCESS_TOKEN_EXPIRE_MINUTES))"

text \<open>
  The local \<^verbatim>\<open>to_encode\<close>: a copy of \<^verbatim>\<open>data\<close>, updated with the key \<^verbatim>\<open>exp\<close>. An
  \<^verbatim>\<open>OverflowError\<close> of the addition leaves the function before anything is encoded.
\<close>

definition to_encode :: "pydict \<Rightarrow> timedelta option \<Rightarrow> datetime \<Rightarrow> exn + pydict" where
  "to_encode data expires_delta now =
     (case expire_at expires_delta now of
        Inl e \<Rightarrow> Inl e
      | Inr expire \<Rightarrow> Inr (AList.update ''exp'' (PDatetime expire) data))"

definition create_access_token ::
  "('tok, 'oid) library \<Rightarrow> AppSettings \<Rightarrow> pydict \<Rightarrow> timedelta option \<Rightarrow> datetime
     \<Rightarrow> exn + 'tok" where
  "create_access_token L S data expires_delta now =
     (case to_encode data expires_delta now of
        Inl e \<Rightarrow> Inl e
      | Inr claims \<Rightarrow> Inr (jwt_encode L claims (JWT_SECRET_KEY S) ALGORITHM))"

section \<open>The user store\<close>

text \<open>
  A document of the \<^verbatim>\<open>users\<close> collection, with the four fields \<^verbatim>\<open>signup\<close> writes
  (\<^verbatim>\<open>_id\<close>, \<^verbatim>\<open>email\<close>, \<^verbatim>\<open>name\<close>, \<^verbatim>\<open>hashed_password\<close>). The collection is the list of its
  documents in insertion order, together with the fields that carry a unique index.
\<close>

record 'oid user_doc =
  doc_id :: 'oid
  doc_email :: string
  doc_name :: string
  doc_hashed_password :: string

record 'oid database =
  users :: "'oid user_doc list"
  unique_indexes :: "string list"

text \<open>\<^verbatim>\<open>find_one({"email": e})\<close> and \<^verbatim>\<open>find_one({"_id": i, "email": e})\<close>: the first match.\<close>

definition find_one_by_email :: "'oid database \<Rightarrow> string \<Rightarrow> 'oid user_doc option" where
  "find_one_by_email db e = List.find (\<lambda>d. doc_email d = e) (users db)"

definition find_one_by_id_and_email ::
  "'oid database \<Rightarrow> 'oid \<Rightarrow> pyval \<Rightarrow> 'oid user_doc option" where
  "find_one_by_id_and_email db i e =
     List.find (\<lambda>d. doc_id d = i \<and> PStr (doc_email d) = e) (users db)"

text \<open>
  \<^verbatim>\<open>insert_one\<close>: \<^verbatim>\<open>_id\<close> is always unique; \<^verbatim>\<open>email\<close> is unique once the index exists.
\<close>

definition insert_one :: "'oid database \<Rightarrow> 'oid user_doc \<Rightarrow> exn + 'oid database" where
  "insert_one db doc =
     (if list_ex (\<lambda>d. doc_id d = doc_id doc) (users db) then Inl DuplicateKeyError
      else if ''email'' \<in> set (unique_indexes db)
              \<and> list_ex (\<lambda>d. doc_email d = doc_email doc) (users db)
      then Inl DuplicateKeyError
      else Inr (db\<lparr>users := users db @ [doc]\<rparr>))"

text \<open>\<^verbatim>\<open>create_index("email", unique=True)\<close> fails on a collection that already has duplicates.\<close>

definition create_index_email_unique :: "'oid database \<Rightarrow> exn + 'oid database" where
  "create_index_email_unique db =
     (if distinct (map doc_email (users db))
      then Inr (db\<lparr>unique_indexes := List.insert ''email'' (unique_indexes db)\<rparr>)
      else Inl DuplicateKeyError)"

section \<open>\<^verbatim>\<open>app.py\<close>: start-up and the HTTP boundary\<close>

text \<open>
  \<^verbatim>\<open>startup_db_client\<close> ensures the index; on any exception it leaves \<^verbatim>\<open>app.database = None\<close>.
\<close>

definition startup_db_client :: "'oid database \<Rightarrow> 'oid database option" where
  "startup_db_client db =
     (case create_index_email_unique db of Inl e \<Rightarrow> None | Inr db' \<Rightarrow> Some db')"

text \<open>
  What reaches the caller, and what the process prints. An \<^verbatim>\<open>HTTPException\<close> is rendered by
  the framework with its own status, detail and headers and a body validation error as 422,
  neither printing anything; every other exception reaches \<^verbatim>\<open>general_exception_handler\<close>,
  which prints the exception and answers with the fixed 500 body.
\<close>

datatype 'tok content =
    Detail string
  | ValidationDetail
  | TokenContent 'tok string

datatype 'tok response = JSONResponse nat "'tok content" "(string \<times> string) list"

datatype log_line = UnhandledError exn

definition general_exception_handler :: "exn \<Rightarrow> log_line list \<times> 'tok response" where
  "general_exception_handler exc =
     ([UnhandledError exc],
      JSONResponse 500 (Detail ''An internal server error occurred. Please try again later.'') [])"

fun handle_exception :: "exn \<Rightarrow> log_line list \<times> 'tok response" where
  "handle_exception (HTTPException status_code detail headers) =
     ([], JSONResponse status_code (Detail detail) headers)"
| "handle_exception RequestValidationError = ([], JSONResponse 422 ValidationDetail [])"
| "handle_exception DuplicateKeyError = general_exception_handler DuplicateKeyError"
| "handle_exception OverflowError = general_exception_handler OverflowError"
| "handle_exception (OtherException m) = general_exception_handler (OtherException m)"

section \<open>\<^verbatim>\<open>auth.py\<close>: from a bearer token to a stored user\<close>

definition credentials_exception :: exn where
  "credentials_exception =
     HTTPException 401 ''Could not validate credentials'' [(''WWW-Authenticate'', ''Bearer'')]"

text \<open>\<^verbatim>\<open>d.get(k)\<close>: \<^verbatim>\<open>None\<close> when the key is absent.\<close>

definition dict_get :: "pydict \<Rightarrow> string \<Rightarrow> pyval" where
  "dict_get d k = (case map_of d k of None \<Rightarrow> PNone | Some v \<Rightarrow> v)"

text \<open>
  An exception as it leaves \<^verbatim>\<open>get_current_user\<close>: the exception raised, and its
  \<^verbatim>\<open>__context__\<close>. Python sets the context of an exception raised inside an \<^verbatim>\<open>except\<close>
  block to the exception being handled; raised anywhere else in this function, it has none.
\<close>

type_synonym raised = "exn \<times> jwt_error option"

text \<open>
  The \<^verbatim>\<open>try\<close> block of \<^verbatim>\<open>get_current_user\<close>: decode, read the two claims, check them.
  Every \<^verbatim>\<open>JWTError\<close> is caught, and \<open>credentials_exception\<close> is raised while handling it.
\<close>

definition get_current_user_claims ::
  "('tok, 'oid) library \<Rightarrow> AppSettings \<Rightarrow> datetime \<Rightarrow> 'tok \<Rightarrow> raised + (pyval \<times> pyval)" where
  "get_current_user_claims L S now token =
     (case jwt_decode L token (JWT_SECRET_KEY S) [ALGORITHM] now of
        Inl e \<Rightarrow> Inl (credentials_exception, Some e)
      | Inr payload \<Rightarrow>
          (let email = dict_get payload ''email'';
               user_id_from_token = dict_get payload ''user_id''
           in if email = PNone \<or> user_id_from_token = PNone
              then Inl (credentials_exception, None)
              else if \<not> oid_is_valid L user_id_from_token
              then Inl (credentials_exception, None)
              else Inr (email, user_id_from_token)))"

definition get_current_user ::
  "('tok, 'oid) library \<Rightarrow> AppSettings \<Rightarrow> datetime \<Rightarrow> 'oid database \<Rightarrow> 'tok
     \<Rightarrow> raised + 'oid user_doc" where
  "get_current_user L S now db token =
     (case get_current_user_claims L S now token of
        Inl e \<Rightarrow> Inl e
      | Inr (email, user_id_from_token) \<Rightarrow>
          (case find_one_by_id_and_email db (oid_of L user_id_from_token) email of
             None \<Rightarrow> Inl (credentials_exception, None)
           | Some user \<Rightarrow> Inr user))"

text \<open>The framework renders the exception; the context plays no part in the response.\<close>

definition respond_unauthenticated :: "raised \<Rightarrow> log_line list \<times> 'tok response" where
  "respond_unauthenticated r = handle_exception (fst r)"

section \<open>\<^verbatim>\<open>models.py\<close>: request bodies\<close>

text \<open>
  A request body is a JSON object, here a \<open>pydict\<close>. The framework validates it against the
  pydantic model of the handler's parameter before the handler runs: a field must be a
  string (a Python \<^verbatim>\<open>str\<close> is a list of characters and \<^verbatim>\<open>min_length\<close>, \<^verbatim>\<open>max_length\<close>
  count characters), an \<^verbatim>\<open>EmailStr\<close> must pass \<open>validate_email\<close>, which returns the
  normalised address.
\<close>

record UserCreate =
  uc_email :: string
  uc_password :: string
  uc_name :: string

record UserLogin =
  ul_email :: string
  ul_password :: string

record 'tok Token =
  access_token :: 'tok
  token_type :: string

definition validate_UserCreate :: "('tok, 'oid) library \<Rightarrow> pydict \<Rightarrow> exn + UserCreate" where
  "validate_UserCreate L body =
     (case (dict_get body ''email'', dict_get body ''password'', dict_get body ''name'') of
        (PStr e, PStr p, PStr n) \<Rightarrow>
          (case validate_email L e of
             None \<Rightarrow> Inl RequestValidationError
           | Some e' \<Rightarrow>
               if 8 \<le> length p \<and> 2 \<le> length n \<and> length n \<le> 50
               then Inr \<lparr>uc_email = e', uc_password = p, uc_name = n\<rparr>
               else Inl RequestValidationError)
      | _ \<Rightarrow> Inl RequestValidationError)"

definition validate_UserLogin :: "('tok, 'oid) library \<Rightarrow> pydict \<Rightarrow> exn + UserLogin" where
  "validate_UserLogin L body =
     (case (dict_get body ''email'', dict_get body ''password'') of
        (PStr e, PStr p) \<Rightarrow>
          (case validate_email L e of
             None \<Rightarrow> Inl RequestValidationError
           | Some e' \<Rightarrow> Inr \<lparr>ul_email = e', ul_password = p\<rparr>)
      | _ \<Rightarrow> Inl RequestValidationError)"

section \<open>\<^verbatim>\<open>routes/auth_routes.py\<close>\<close>

text \<open>
  \<^verbatim>\<open>signup\<close> changes the store, so it runs on a \<open>world\<close>: the store and the list of the
  calls made so far to the store and to the password hasher. What a request draws from its
  environment (the fresh \<^verbatim>\<open>ObjectId()\<close>, the hasher's randomness, the clock) is its
  \<open>request_env\<close>.
\<close>

datatype 'oid effect = DbFindOne string | PwdHash string | DbInsertOne "'oid user_doc"

record 'oid world =
  store :: "'oid database"
  effects :: "'oid effect list"

record 'oid request_env =
  new_object_id :: 'oid
  entropy :: nat
  clock :: datetime

text \<open>
  The handler awaits the store twice. Up to the first \<^verbatim>\<open>await\<close> and its test
  (lines 29 to 36):
\<close>

definition signup_find :: "'oid world \<Rightarrow> UserCreate \<Rightarrow> (exn + unit) \<times> 'oid world" where
  "signup_find w user_create =
     (let w1 = w\<lparr>effects := effects w @ [DbFindOne (uc_email user_create)]\<rparr>
      in case find_one_by_email (store w) (uc_email user_create) of
           Some existing_user \<Rightarrow> (Inl (HTTPException 400 ''Email already registered.'' []), w1)
         | None \<Rightarrow> (Inr (), w1))"

text \<open>
  From there to the end (lines 38 to 59): hash, build the document, insert, issue the
  token. Nothing catches what the hasher, \<^verbatim>\<open>insert_one\<close> or the issuer raises.
\<close>

definition signup_insert ::
  "('tok, 'oid) library \<Rightarrow> AppSettings \<Rightarrow> 'oid request_env \<Rightarrow> 'oid world \<Rightarrow> UserCreate
     \<Rightarrow> (exn + 'tok Token) \<times> 'oid world" where
  "signup_insert L S env w user_create =
     (case get_password_hash L (entropy env) (uc_password user_create) of
        Inl e \<Rightarrow> (Inl e, w\<lparr>effects := effects w @ [PwdHash (uc_password user_create)]\<rparr>)
      | Inr hashed_password \<Rightarrow>
          (let user_id_obj = new_object_id env;
               user_db_data = \<lparr>doc_id = user_id_obj, doc_email = uc_email user_create,
                               doc_name = uc_name user_create,
                               doc_hashed_password = hashed_password\<rparr>;
               w1 = w\<lparr>effects := effects w @ [PwdHash (uc_password user_create),
                                                DbInsertOne user_db_data]\<rparr>
           in case insert_one (store w) user_db_data of
                Inl e \<Rightarrow> (Inl e, w1)
              | Inr db' \<Rightarrow>
                  (case create_access_token L S
                          [(''email'', PStr (uc_email user_create)),
                           (''user_id'', PStr (oid_str L user_id_obj))]
                          (Some (timedelta_minutes ACCESS_TOKEN_EXPIRE_MINUTES)) (clock env) of
                     Inl e \<Rightarrow> (Inl e, w1\<lparr>store := db'\<rparr>)
                   | Inr encoded_jwt \<Rightarrow>
                       (Inr \<lparr>access_token = encoded_jwt, token_type = ''bearer''\<rparr>,
                        w1\<lparr>store := db'\<rparr>))))"

definition signup ::
  "('tok, 'oid) library \<Rightarrow> AppSettings \<Rightarrow> 'oid request_env \<Rightarrow> 'oid world \<Rightarrow> UserCreate
     \<Rightarrow> (exn + 'tok Token) \<times> 'oid world" where
  "signup L S env w user_create =
     (case signup_find w user_create of
        (Inl e, w1) \<Rightarrow> (Inl e, w1)
      | (Inr u, w1) \<Rightarrow> signup_insert L S env w1 user_create)"

text \<open>The route: the body is validated first, and an invalid body never reaches the handler.\<close>

definition signup_endpoint ::
  "('tok, 'oid) library \<Rightarrow> AppSettings \<Rightarrow> 'oid request_env \<Rightarrow> 'oid world \<Rightarrow> pydict
     \<Rightarrow> (exn + 'tok Token) \<times> 'oid world" where
  "signup_endpoint L S env w body =
     (case validate_UserCreate L body of
        Inl e \<Rightarrow> (Inl e, w)
      | Inr user_create \<Rightarrow> signup L S env w user_create)"

text \<open>
  Two requests in flight. Each is at its first \<^verbatim>\<open>await\<close>, at its second, or has returned;
  the event loop runs one of them up to its next \<^verbatim>\<open>await\<close>. A schedule says whose turn it
  is: \<open>True\<close> for the first request, \<open>False\<close> for the second.
\<close>

datatype 'tok signup_task = AtFindOne | AtInsertOne | Returned "exn + 'tok Token"

fun signup_step ::
  "('tok, 'oid) library \<Rightarrow> AppSettings \<Rightarrow> 'oid request_env \<Rightarrow> UserCreate
     \<Rightarrow> 'tok signup_task \<times> 'oid world \<Rightarrow> 'tok signup_task \<times> 'oid world" where
  "signup_step L S env uc (AtFindOne, w) =
     (case signup_find w uc of
        (Inl e, w1) \<Rightarrow> (Returned (Inl e), w1)
      | (Inr u, w1) \<Rightarrow> (AtInsertOne, w1))"
| "signup_step L S env uc (AtInsertOne, w) =
     (case signup_insert L S env w uc of (r, w1) \<Rightarrow> (Returned r, w1))"
| "signup_step L S env uc (Returned r, w) = (Returned r, w)"

fun run_signups ::
  "('tok, 'oid) library \<Rightarrow> AppSettings \<Rightarrow> 'oid request_env \<times> UserCreate
     \<Rightarrow> 'oid request_env \<times> UserCreate \<Rightarrow> bool list
     \<Rightarrow> 'tok signup_task \<times> 'tok signup_task \<times> 'oid world
     \<Rightarrow> 'tok signup_task \<times> 'tok signup_task \<times> 'oid world" where
  "run_signups L S ra rb [] st = st"
| "run_signups L S ra rb (True # schedule) (a, b, w) =
     (case signup_step L S (fst ra) (snd ra) (a, w) of
        (a', w') \<Rightarrow> run_signups L S ra rb schedule (a', b, w'))"
| "run_signups L S ra rb (False # schedule) (a, b, w) =
     (case signup_step L S (fst rb) (snd rb) (b, w) of
        (b', w') \<Rightarrow> run_signups L S ra rb schedule (a, b', w'))"

definition incorrect_credentials :: exn where
  "incorrect_credentials =
     HTTPException 401 ''Incorrect email or password.'' [(''WWW-Authenticate'', ''Bearer'')]"

text \<open>
  \<^verbatim>\<open>login\<close>: \<^verbatim>\<open>not user_dict or not verify_password(...)\<close> does not call the verifier when
  no document was found; an exception of the verifier propagates.
\<close>

definition login ::
  "('tok, 'oid) library \<Rightarrow> AppSettings \<Rightarrow> datetime \<Rightarrow> 'oid database \<Rightarrow> UserLogin
     \<Rightarrow> exn + 'tok Token" where
  "login L S now db form_data =
     (case find_one_by_email db (ul_email form_data) of
        None \<Rightarrow> Inl incorrect_credentials
      | Some user_dict \<Rightarrow>
          (case verify_password L (ul_password form_data) (doc_hashed_password user_dict) of
             Inl e \<Rightarrow> Inl e
           | Inr verified \<Rightarrow>
               if verified
               then (case create_access_token L S
                            [(''email'', PStr (doc_email user_dict)),
                             (''user_id'', PStr (oid_str L (doc_id user_dict)))]
                            (Some (timedelta_minutes ACCESS_TOKEN_EXPIRE_MINUTES)) now of
                       Inl e \<Rightarrow> Inl e
                     | Inr encoded_jwt \<Rightarrow>
                         Inr \<lparr>access_token = encoded_jwt, token_type = ''bearer''\<rparr>)
               else Inl incorrect_credentials))"

definition login_endpoint ::
  "('tok, 'oid) library \<Rightarrow> AppSettings \<Rightarrow> datetime \<Rightarrow> 'oid database \<Rightarrow> pydict
     \<Rightarrow> exn + 'tok Token" where
  "login_endpoint L S now db body =
     (case validate_UserLogin L body of
        Inl e \<Rightarrow> Inl e
      | Inr form_data \<Rightarrow> login L S now db form_data)"

text \<open>What the caller of a token route receives, and what is printed: 201 for signup, 200 for login.\<close>

definition respond_token ::
  "nat \<Rightarrow> exn + 'tok Token \<Rightarrow> log_line list \<times> 'tok response" where
  "respond_token status_code result =
     (case result of
        Inl e \<Rightarrow> handle_exception e
      | Inr t \<Rightarrow> ([], JSONResponse status_code (TokenContent (access_token t) (token_type t)) []))"

section \<open>The token codec of the specification\<close>

text \<open>
  Modelled from the spec: the token codec (\<^verbatim>\<open>jwt.encode\<close> and \<^verbatim>\<open>jwt.decode\<close> of
  \<^verbatim>\<open>python-jose\<close>), which the sources only call. The specification says that a token
  carries the claims and a signature made with the shared secret and the fixed algorithm,
  that verification fails as invalid when the signature does not match and as expired when
  the current time is at or past the embedded expiry, and that the signature is checked
  before any claim is read. The signing function itself is a parameter \<open>sign\<close>.
\<close>

record 'sig token =
  tok_payload :: pydict
  tok_signature :: 'sig

definition spec_jwt_encode ::
  "(string \<Rightarrow> string \<Rightarrow> pydict \<Rightarrow> 'sig) \<Rightarrow> pydict \<Rightarrow> string \<Rightarrow> string \<Rightarrow> 'sig token" where
  "spec_jwt_encode sign claims key alg =
     \<lparr>tok_payload = claims, tok_signature = sign alg key claims\<rparr>"

definition spec_jwt_decode ::
  "(string \<Rightarrow> string \<Rightarrow> pydict \<Rightarrow> 'sig) \<Rightarrow> 'sig token \<Rightarrow> string \<Rightarrow> string list \<Rightarrow> datetime
     \<Rightarrow> jwt_error + pydict" where
  "spec_jwt_decode sign token key algs now =
     (if list_ex (\<lambda>alg. tok_signature token = sign alg key (tok_payload token)) algs
      then (case map_of (tok_payload token) ''exp'' of
              Some (PDatetime exp) \<Rightarrow>
                if exp \<le> now then Inl ExpiredSignatureError else Inr (tok_payload token)
            | _ \<Rightarrow> Inr (tok_payload token))
      else Inl JWTError)"

text \<open>A library whose token codec is the one above.\<close>

definition with_spec_codec ::
  "(string \<Rightarrow> string \<Rightarrow> pydict \<Rightarrow> 'sig) \<Rightarrow> ('sig token, 'oid) library
     \<Rightarrow> ('sig token, 'oid) library" where
  "with_spec_codec sign L =
     L\<lparr>jwt_encode := spec_jwt_encode sign, jwt_decode := spec_jwt_decode sign\<rparr>"

section \<open>Concrete inputs\<close>

text \<open>
  A concrete library, settings and user for evaluating the code: the codec above with a
  signature that records what was signed, a hasher that tags the password and, as the
  verifier does, raises on a password that contains a NUL character, identifiers of
  24 characters, addresses that contain \<^verbatim>\<open>@\<close>.
\<close>

definition test_sign :: "string \<Rightarrow> string \<Rightarrow> pydict \<Rightarrow> string \<times> string \<times> pydict" where
  "test_sign alg key claims = (alg, key, claims)"

definition test_library :: "((string \<times> string \<times> pydict) token, string) library" where
  "test_library =
     \<lparr>jwt_encode = spec_jwt_encode test_sign,
      jwt_decode = spec_jwt_decode test_sign,
      ctx_hash = (\<lambda>entropy password.
        if CHR 0x00 \<in> set password then Inl (OtherException ''PasswordValueError'')
        else Inr (''hash:'' @ password)),
      ctx_verify = (\<lambda>plain hashed.
        if CHR 0x00 \<in> set plain then Inl (OtherException ''PasswordValueError'')
        else Inr (hashed = ''hash:'' @ plain)),
      oid_is_valid = (\<lambda>v. case v of PStr s \<Rightarrow> length s = 24 | _ \<Rightarrow> False),
      oid_of = (\<lambda>v. case v of PStr s \<Rightarrow> s | _ \<Rightarrow> []),
      oid_str = (\<lambda>s. s),
      validate_email = (\<lambda>s. if CHR ''@'' \<in> set s then Some s else None)\<rparr>"

definition test_settings :: AppSettings where
  "test_settings = \<lparr>JWT_SECRET_KEY = ''secret''\<rparr>"

definition alice :: "string user_doc" where
  "alice = \<lparr>doc_id = ''65f0c0ffee0123456789abcd'', doc_email = ''a@x.com'', doc_name = ''Al'',
            doc_hashed_password = ''hash:longenough1''\<rparr>"

definition alice_claim :: pydict where
  "alice_claim = [(''email'', PStr ''a@x.com''), (''user_id'', PStr ''65f0c0ffee0123456789abcd'')]"

definition alice_token :: "(string \<times> string \<times> pydict) token" where
  "alice_token =
     spec_jwt_encode test_sign (alice_claim @ [(''exp'', PDatetime 1800000000)])
       ''secret'' ''HS256''"

definition forged_token :: "(string \<times> string \<times> pydict) token" where
  "forged_token = \<lparr>tok_payload = alice_claim, tok_signature = (''HS256'', ''guess'', alice_claim)\<rparr>"

definition alice_db :: "string database" where
  "alice_db = \<lparr>users = [alice], unique_indexes = [''email'']\<rparr>"

definition empty_world :: "string world" where
  "empty_world = \<lparr>store = \<lparr>users = [], unique_indexes = [''email'']\<rparr>, effects = []\<rparr>"

definition signup_a :: "string request_env \<times> UserCreate" where
  "signup_a =
     (\<lparr>new_object_id = ''65f0c0ffee0123456789abcd'', entropy = 1, clock = 1000000\<rparr>,
      \<lparr>uc_email = ''a@x.com'', uc_password = ''longenough1'', uc_name = ''Al''\<rparr>)"

definition signup_b :: "string request_env \<times> UserCreate" where
  "signup_b =
     (\<lparr>new_object_id = ''65f0c0ffee0123456789abce'', entropy = 2, clock = 1000001\<rparr>,
      \<lparr>uc_email = ''a@x.com'', uc_password = ''otherpass22'', uc_name = ''Bo''\<rparr>)"

section \<open>Expiry embedded at issuance\<close>

text \<open>
  C3. The token is to embed the expiry \<open>now + t\<close> for every ttl \<open>t\<close>. For the ttl
  \<^verbatim>\<open>timedelta(0)\<close> the truthiness test takes the default branch: the issuer does exactly
  what it does when no ttl is supplied. It raises \<^verbatim>\<open>OverflowError\<close> when thirty minutes
  from now is past the last datetime, and otherwise hands the signer claims whose expiry
  is \<open>now\<close> plus thirty minutes, which differs from \<open>now + 0\<close>, whatever the identity
  claim, the clock and the libraries are.
\<close>

theorem create_access_token_zero_ttl:
  "create_access_token L S data (Some 0) now = create_access_token L S data None now
   \<and> to_encode data (Some 0) now =
       (if datetime_min \<le> now + 1800000000 \<and> now + 1800000000 \<le> datetime_max
        then Inr (AList.update ''exp'' (PDatetime (now + 1800000000)) data)
        else Inl OverflowError)
   \<and> (case to_encode data (Some 0) now of
         Inl e \<Rightarrow> e = OverflowError
       | Inr claims \<Rightarrow>
           map_of claims ''exp'' = Some (PDatetime (now + 1800000000))
           \<and> map_of claims ''exp'' \<noteq> Some (PDatetime (now + 0)))"
  by (simp add: create_access_token_def to_encode_def datetime_add_def update_conv'
      timedelta_minutes_def ACCESS_TOKEN_EXPIRE_MINUTES_def)

section \<open>Resolving a verified token to a stored user\<close>

lemma find_one_by_id_and_email_None:
  "find_one_by_id_and_email db i e = None \<longleftrightarrow>
     \<not> list_ex (\<lambda>d. doc_id d = i \<and> PStr (doc_email d) = e) (users db)"
  by (auto simp: find_one_by_id_and_email_def find_None_iff list_ex_iff)

lemma find_one_by_id_and_email_Some:
  "find_one_by_id_and_email db i e = Some u \<Longrightarrow>
     u \<in> set (users db) \<and> doc_id u = i \<and> PStr (doc_email u) = e"
  by (auto simp: find_one_by_id_and_email_def find_Some_iff)

lemma unique_id_filter:
  "distinct (map doc_id ds) \<Longrightarrow> u \<in> set ds \<Longrightarrow> filter (\<lambda>d. doc_id d = doc_id u) ds = [u]"
proof (induction ds)
  case Nil
  then show ?case by simp
next
  case (Cons a ds)
  show ?case
  proof (cases "a = u")
    case True
    with Cons.prems have "doc_id u \<notin> doc_id ` set ds" by simp
    then have "\<forall>d \<in> set ds. doc_id d \<noteq> doc_id u" by (metis imageI)
    then have "filter (\<lambda>d. doc_id d = doc_id u) ds = []" by (simp add: filter_empty_conv)
    with True show ?thesis by simp
  next
    case False
    with Cons.prems have u: "u \<in> set ds" and d: "distinct (map doc_id ds)" by auto
    from Cons.prems u have "doc_id a \<noteq> doc_id u" by auto
    with Cons.IH [OF d u] show ?thesis by simp
  qed
qed

lemma get_current_user_decoded:
  assumes "jwt_decode L token (JWT_SECRET_KEY S) [ALGORITHM] now = Inr payload"
  shows "get_current_user L S now db token =
     (if dict_get payload ''email'' = PNone \<or> dict_get payload ''user_id'' = PNone
         \<or> \<not> oid_is_valid L (dict_get payload ''user_id'')
      then Inl (credentials_exception, None)
      else case find_one_by_id_and_email db (oid_of L (dict_get payload ''user_id''))
                  (dict_get payload ''email'') of
             None \<Rightarrow> Inl (credentials_exception, None)
           | Some user \<Rightarrow> Inr user)"
  using assms by (simp add: get_current_user_def get_current_user_claims_def Let_def)

text \<open>
  C5. Let the token decode, that is, its signature and expiry verify. If no stored user
  has the claimed identifier, the outcome is the generic 401 (the exception that is
  rendered as "Could not validate credentials"). If identifiers are unique
  in the store and the user with the claimed identifier has another email than the
  claimed one, the outcome is the generic 401. If a user is returned, it is a stored
  user with the claimed identifier and the claimed email, and, identifiers being unique,
  the only stored user with that identifier.
\<close>

theorem get_current_user_fails_closed:
  assumes dec: "jwt_decode L token (JWT_SECRET_KEY S) [ALGORITHM] now = Inr payload"
  shows "(\<not> list_ex (\<lambda>d. doc_id d = oid_of L (dict_get payload ''user_id'')) (users db)
            \<longrightarrow> get_current_user L S now db token = Inl (credentials_exception, None))
       \<and> (distinct (map doc_id (users db)) \<and> d \<in> set (users db)
            \<and> doc_id d = oid_of L (dict_get payload ''user_id'')
            \<and> PStr (doc_email d) \<noteq> dict_get payload ''email''
            \<longrightarrow> get_current_user L S now db token = Inl (credentials_exception, None))
       \<and> (get_current_user L S now db token = Inr user
            \<longrightarrow> user \<in> set (users db)
              \<and> doc_id user = oid_of L (dict_get payload ''user_id'')
              \<and> PStr (doc_email user) = dict_get payload ''email''
              \<and> (distinct (map doc_id (users db))
                   \<longrightarrow> filter (\<lambda>d. doc_id d = doc_id user) (users db) = [user]))
       \<and> respond_unauthenticated (credentials_exception, None) =
           ([], JSONResponse 401 (Detail ''Could not validate credentials'')
                  [(''WWW-Authenticate'', ''Bearer'')])"
proof (intro conjI impI)
  let ?i = "oid_of L (dict_get payload ''user_id'')"
  let ?e = "dict_get payload ''email''"
  note gcu = get_current_user_decoded [OF dec, of db]
  {
    assume "\<not> list_ex (\<lambda>d. doc_id d = ?i) (users db)"
    then have "find_one_by_id_and_email db ?i ?e = None"
      by (auto simp: find_one_by_id_and_email_None list_ex_iff)
    then show "get_current_user L S now db token = Inl (credentials_exception, None)"
      by (simp add: gcu)
  }
  {
    assume a: "distinct (map doc_id (users db)) \<and> d \<in> set (users db) \<and> doc_id d = ?i
               \<and> PStr (doc_email d) \<noteq> ?e"
    have "find_one_by_id_and_email db ?i ?e = None"
    proof (rule ccontr)
      assume "find_one_by_id_and_email db ?i ?e \<noteq> None"
      then obtain u where "find_one_by_id_and_email db ?i ?e = Some u" by auto
      then have u: "u \<in> set (users db)" "doc_id u = ?i" "PStr (doc_email u) = ?e"
        by (simp_all add: find_one_by_id_and_email_Some)
      from a have "inj_on doc_id (set (users db))" by (simp add: distinct_map)
      moreover from u a have "doc_id u = doc_id d" by simp
      ultimately have "u = d" using u(1) a by (meson inj_onD)
      with u a show False by simp
    qed
    then show "get_current_user L S now db token = Inl (credentials_exception, None)"
      by (simp add: gcu)
  }
  {
    assume ok: "get_current_user L S now db token = Inr user"
    then have f: "find_one_by_id_and_email db ?i ?e = Some user"
      by (simp add: gcu split: if_splits option.splits)
    from find_one_by_id_and_email_Some [OF f]
    show "user \<in> set (users db)" and "doc_id user = ?i" and "PStr (doc_email user) = ?e"
      by simp_all
    {
      assume "distinct (map doc_id (users db))"
      then show "filter (\<lambda>d. doc_id d = doc_id user) (users db) = [user]"
        using \<open>user \<in> set (users db)\<close> by (rule unique_id_filter)
    }
  }
  show "respond_unauthenticated (credentials_exception, None) =
           ([], JSONResponse 401 (Detail ''Could not validate credentials'')
                  [(''WWW-Authenticate'', ''Bearer'')])"
    by (simp add: respond_unauthenticated_def credentials_exception_def)
qed

lemmas test_defs =
  test_library_def test_settings_def test_sign_def alice_def alice_claim_def alice_db_def
  alice_token_def forged_token_def spec_jwt_encode_def spec_jwt_decode_def
  create_access_token_def to_encode_def datetime_add_def datetime_min_def datetime_max_def
  ALGORITHM_def timedelta_minutes_def ACCESS_TOKEN_EXPIRE_MINUTES_def dict_get_def


lemma alice_token_decodes:
  "jwt_decode test_library alice_token (JWT_SECRET_KEY test_settings) [ALGORITHM] 0
   = Inr (tok_payload alice_token)"
  by (simp add: test_defs)

theorem get_current_user_fails_closed_witness:
  "get_current_user test_library test_settings 0 \<lparr>users = [], unique_indexes = [''email'']\<rparr>
     alice_token
     = Inl (credentials_exception, None)
   \<and> get_current_user test_library test_settings 0
       \<lparr>users = [alice\<lparr>doc_email := ''b@x.com''\<rparr>], unique_indexes = [''email'']\<rparr>
       alice_token
     = Inl (credentials_exception, None)
   \<and> get_current_user test_library test_settings 0 alice_db
       alice_token
     = Inr alice
   \<and> filter (\<lambda>d. doc_id d = doc_id alice) (users alice_db) = [alice]"
proof -
  let ?tok = alice_token
  let ?moved = "alice\<lparr>doc_email := ''b@x.com''\<rparr>"
  note dec = alice_token_decodes
  have absent: "get_current_user test_library test_settings 0
      \<lparr>users = [], unique_indexes = [''email'']\<rparr> ?tok = Inl (credentials_exception, None)"
    using get_current_user_fails_closed
      [OF dec, of "\<lparr>users = [], unique_indexes = [''email'']\<rparr>" alice alice,
       THEN conjunct1]
    by simp
  have prem: "distinct (map doc_id (users \<lparr>users = [?moved], unique_indexes = [''email'']\<rparr>))
      \<and> ?moved \<in> set (users \<lparr>users = [?moved], unique_indexes = [''email'']\<rparr>)
      \<and> doc_id ?moved
           = oid_of test_library (dict_get (tok_payload alice_token) ''user_id'')
      \<and> PStr (doc_email ?moved)
           \<noteq> dict_get (tok_payload alice_token) ''email''"
    by (simp add: test_defs)
  have moved: "get_current_user test_library test_settings 0
      \<lparr>users = [?moved], unique_indexes = [''email'']\<rparr> ?tok = Inl (credentials_exception, None)"
    using get_current_user_fails_closed
      [OF dec, of "\<lparr>users = [?moved], unique_indexes = [''email'']\<rparr>" ?moved alice]
      prem
    by blast
  have found: "get_current_user test_library test_settings 0 alice_db ?tok = Inr alice"
    by (simp add: get_current_user_def get_current_user_claims_def
        find_one_by_id_and_email_def test_defs)
  have only: "filter (\<lambda>d. doc_id d = doc_id alice) (users alice_db) = [alice]"
  proof -
    have "distinct (map doc_id (users alice_db))" by (simp add: alice_db_def)
    with get_current_user_fails_closed [OF dec, of alice_db alice alice] found
    show ?thesis by blast
  qed
  from absent moved found only show ?thesis by simp
qed

section \<open>Failures of token verification at the boundary\<close>

text \<open>
  C6. Every failure of \<open>get_current_user\<close> raises \<open>credentials_exception\<close>, which
  reaches the caller as the 401 response "Could not validate credentials" and prints
  nothing, whether the decoder reported an expired token, an invalid one, or a claim was
  missing or malformed. Inside the service the kinds stay apart: the exception raised
  for a decoder error carries that error as its context, so the context is the
  expired-signature error exactly when the token had expired.
\<close>

theorem token_failures_same_outcome:
  "(jwt_decode L token (JWT_SECRET_KEY S) [ALGORITHM] now = Inl e
      \<longrightarrow> get_current_user L S now db token = Inl (credentials_exception, Some e))
   \<and> (get_current_user L S now db token = Inl r
      \<longrightarrow> fst r = credentials_exception
          \<and> respond_unauthenticated r =
              ([], JSONResponse 401 (Detail ''Could not validate credentials'')
                     [(''WWW-Authenticate'', ''Bearer'')])
          \<and> (snd r = Some ExpiredSignatureError
               \<longleftrightarrow> jwt_decode L token (JWT_SECRET_KEY S) [ALGORITHM] now
                     = Inl ExpiredSignatureError))"
  by (auto simp: get_current_user_def get_current_user_claims_def credentials_exception_def
      respond_unauthenticated_def Let_def split: sum.splits if_splits option.splits)

lemma expired_token_decode:
  "jwt_decode test_library alice_token
     (JWT_SECRET_KEY test_settings) [ALGORITHM] 1800000000
   = Inl ExpiredSignatureError"
  by (simp add: test_defs)

lemma forged_token_decode:
  "jwt_decode test_library
     forged_token
     (JWT_SECRET_KEY test_settings) [ALGORITHM] 1800000000
   = Inl JWTError"
  by (simp add: test_defs)

theorem token_failures_same_outcome_witness:
  "get_current_user test_library test_settings 1800000000 alice_db
     alice_token
   = Inl (credentials_exception, Some ExpiredSignatureError)
   \<and> get_current_user test_library test_settings 1800000000 alice_db
       forged_token
     = Inl (credentials_exception, Some JWTError)
   \<and> (respond_unauthenticated (credentials_exception, Some ExpiredSignatureError)
         :: log_line list \<times> unit response)
     = respond_unauthenticated (credentials_exception, Some JWTError)
   \<and> (respond_unauthenticated (credentials_exception, Some JWTError)
         :: log_line list \<times> unit response)
     = ([], JSONResponse 401 (Detail ''Could not validate credentials'')
              [(''WWW-Authenticate'', ''Bearer'')])"
proof -
  let ?tok = alice_token
  let ?forged = forged_token
  let ?resp = "([], JSONResponse 401 (Detail ''Could not validate credentials'')
                      [(''WWW-Authenticate'', ''Bearer'')]) :: log_line list \<times> unit response"
  have "jwt_decode test_library ?tok (JWT_SECRET_KEY test_settings) [ALGORITHM] 1800000000
          = Inl ExpiredSignatureError
        \<longrightarrow> get_current_user test_library test_settings 1800000000 alice_db ?tok
          = Inl (credentials_exception, Some ExpiredSignatureError)"
    using token_failures_same_outcome
      [of test_library ?tok test_settings 1800000000 ExpiredSignatureError alice_db]
    by (rule conjunct1)
  then have expired: "get_current_user test_library test_settings 1800000000 alice_db ?tok
      = Inl (credentials_exception, Some ExpiredSignatureError)"
    using expired_token_decode by (rule mp)
  have "jwt_decode test_library ?forged (JWT_SECRET_KEY test_settings) [ALGORITHM] 1800000000
          = Inl JWTError
        \<longrightarrow> get_current_user test_library test_settings 1800000000 alice_db ?forged
          = Inl (credentials_exception, Some JWTError)"
    using token_failures_same_outcome
      [of test_library ?forged test_settings 1800000000 JWTError alice_db]
    by (rule conjunct1)
  then have forged: "get_current_user test_library test_settings 1800000000 alice_db ?forged
      = Inl (credentials_exception, Some JWTError)"
    using forged_token_decode by (rule mp)
  have r1: "respond_unauthenticated (credentials_exception, Some ExpiredSignatureError) = ?resp"
    using token_failures_same_outcome
      [of test_library ?tok test_settings 1800000000 ExpiredSignatureError alice_db
          "(credentials_exception, Some ExpiredSignatureError)"]
      expired
    by blast
  have r2: "respond_unauthenticated (credentials_exception, Some JWTError) = ?resp"
    using token_failures_same_outcome
      [of test_library ?forged test_settings 1800000000 JWTError alice_db
          "(credentials_exception, Some JWTError)"]
      forged
    by blast
  from expired forged r1 r2 show ?thesis by simp
qed

section \<open>Issuing a token and verifying it at once\<close>

lemma test_library_codec: "with_spec_codec test_sign test_library = test_library"
  by (simp add: with_spec_codec_def test_library_def)

text \<open>
  C2, as amended. With the codec of the specification, for any signing function, secret
  and clock: for an email, a valid identifier and a ttl \<open>t > 0\<close> such that \<open>now + t\<close>
  is still a datetime, the issuer returns a token, and verifying that token at the
  instant of issuance yields exactly that email and that identifier.
\<close>

theorem issue_then_verify:
  fixes L :: "('sig token, 'oid) library"
  assumes "0 < t" and "datetime_min \<le> now" and "now + t \<le> datetime_max"
    and "oid_is_valid L (PStr user_id)"
  shows "create_access_token (with_spec_codec sign L) S
           [(''email'', PStr email), (''user_id'', PStr user_id)] (Some t) now
         = Inr (spec_jwt_encode sign
                  [(''email'', PStr email), (''user_id'', PStr user_id),
                   (''exp'', PDatetime (now + t))]
                  (JWT_SECRET_KEY S) ALGORITHM)
       \<and> get_current_user_claims (with_spec_codec sign L) S now
           (spec_jwt_encode sign
              [(''email'', PStr email), (''user_id'', PStr user_id),
               (''exp'', PDatetime (now + t))]
              (JWT_SECRET_KEY S) ALGORITHM)
         = Inr (PStr email, PStr user_id)"
  using assms
  by (simp add: get_current_user_claims_def create_access_token_def to_encode_def
      datetime_add_def with_spec_codec_def spec_jwt_encode_def spec_jwt_decode_def
      dict_get_def)

theorem issue_then_verify_witness:
  "create_access_token test_library test_settings alice_claim (Some 1) 1000000
     = Inr (spec_jwt_encode test_sign (alice_claim @ [(''exp'', PDatetime 1000001)])
              ''secret'' ''HS256'')
   \<and> get_current_user_claims test_library test_settings 1000000
       (spec_jwt_encode test_sign (alice_claim @ [(''exp'', PDatetime 1000001)])
          ''secret'' ''HS256'')
     = Inr (PStr ''a@x.com'', PStr ''65f0c0ffee0123456789abcd'')"
proof -
  have t: "(0::int) < 1" by simp
  have lo: "datetime_min \<le> 1000000" by (simp add: datetime_min_def)
  have hi: "(1000000::int) + 1 \<le> datetime_max" by (simp add: datetime_max_def)
  have v: "oid_is_valid test_library (PStr ''65f0c0ffee0123456789abcd'')"
    by (simp add: test_library_def)
  from issue_then_verify [OF t lo hi v, of test_sign test_settings "''a@x.com''"]
  show ?thesis
    by (simp add: test_library_codec alice_claim_def test_settings_def ALGORITHM_def)
qed

text \<open>
  C2, as stated, covers every ttl \<open>t > 0\<close>. For a ttl of three million days
  (259200000000000000 microseconds), at a clock in November 2025, the sum passes the
  last datetime: the issuer raises \<^verbatim>\<open>OverflowError\<close> and there is no token to verify.
\<close>

theorem issue_overflows_for_large_ttl:
  "(0::int) < 259200000000000000
   \<and> create_access_token test_library test_settings alice_claim
        (Some 259200000000000000) 1762000000000000
     = Inl OverflowError"
  by (simp add: create_access_token_def to_encode_def datetime_add_def datetime_min_def
      datetime_max_def)

section \<open>Tampering with an issued token\<close>






section \<open>Login failures\<close>

text \<open>
  When the verifier returns, a login for an email that no stored user has and a login
  for an email whose stored user's hash the password does not verify against fail with
  the same exception and reach the caller as the same response.
\<close>

lemma login_failure_same_when_verifier_returns:
  assumes "find_one_by_email db1 (ul_email form_data) = None"
    and "find_one_by_email db2 (ul_email form_data) = Some user_dict"
    and "verify_password L (ul_password form_data) (doc_hashed_password user_dict) = Inr False"
  shows "login L S now1 db1 form_data = Inl incorrect_credentials
       \<and> login L S now2 db2 form_data = Inl incorrect_credentials
       \<and> respond_token 200 (login L S now1 db1 form_data)
           = respond_token 200 (login L S now2 db2 form_data)
       \<and> respond_token 200 (login L S now1 db1 form_data)
           = ([], JSONResponse 401 (Detail ''Incorrect email or password.'')
                    [(''WWW-Authenticate'', ''Bearer'')])"
  using assms by (simp add: login_def respond_token_def incorrect_credentials_def)

text \<open>
  C7. The two failures are to be the same response for every login request. A wrong
  password that the verifier refuses with an exception, here one that contains a NUL
  character, is not caught by \<^verbatim>\<open>login\<close>: for an email that no stored user has the
  caller gets 401 "Incorrect email or password.", for the email of a stored user the
  caller gets the 500 response of the general handler.
\<close>

theorem login_verifier_error_reveals_user:
  "login_endpoint test_library test_settings 5 (store empty_world)
     [(''email'', PStr ''a@x.com''), (''password'', PStr [CHR ''a'', CHR 0x00, CHR ''b''])]
   = Inl incorrect_credentials
   \<and> login_endpoint test_library test_settings 5 alice_db
       [(''email'', PStr ''a@x.com''), (''password'', PStr [CHR ''a'', CHR 0x00, CHR ''b''])]
     = Inl (OtherException ''PasswordValueError'')
   \<and> respond_token 200
       (login_endpoint test_library test_settings 5 (store empty_world)
          [(''email'', PStr ''a@x.com''),
           (''password'', PStr [CHR ''a'', CHR 0x00, CHR ''b''])])
     = ([], JSONResponse 401 (Detail ''Incorrect email or password.'')
              [(''WWW-Authenticate'', ''Bearer'')])
   \<and> respond_token 200
       (login_endpoint test_library test_settings 5 alice_db
          [(''email'', PStr ''a@x.com''),
           (''password'', PStr [CHR ''a'', CHR 0x00, CHR ''b''])])
     = ([UnhandledError (OtherException ''PasswordValueError'')],
        JSONResponse 500
          (Detail ''An internal server error occurred. Please try again later.'') [])"
  by (simp add: login_endpoint_def validate_UserLogin_def login_def verify_password_def
      find_one_by_email_def respond_token_def incorrect_credentials_def
      general_exception_handler_def empty_world_def alice_db_def alice_def test_library_def
      dict_get_def)

section \<open>Validation of the signup body\<close>

lemma validate_UserCreate_Inr:
  "validate_UserCreate L body = Inr uc \<Longrightarrow>
     dict_get body ''password'' = PStr (uc_password uc) \<and> dict_get body ''name'' = PStr (uc_name uc)
     \<and> 8 \<le> length (uc_password uc) \<and> 2 \<le> length (uc_name uc) \<and> length (uc_name uc) \<le> 50"
  by (auto simp: validate_UserCreate_def split: pyval.splits option.splits if_splits)

lemma validate_UserCreate_bounds:
  "dict_get body ''password'' = PStr p \<Longrightarrow> dict_get body ''name'' = PStr n \<Longrightarrow>
     length p < 8 \<or> length n < 2 \<or> 50 < length n \<Longrightarrow>
     validate_UserCreate L body = Inl RequestValidationError"
  by (auto simp: validate_UserCreate_def split: pyval.splits option.splits)

lemma validate_UserCreate_not_str:
  "(\<forall>p. dict_get body ''password'' \<noteq> PStr p) \<or> (\<forall>n. dict_get body ''name'' \<noteq> PStr n) \<Longrightarrow>
     validate_UserCreate L body = Inl RequestValidationError"
  by (auto simp: validate_UserCreate_def split: pyval.splits option.splits)

text \<open>
  C10. A signup that returns a token had a password of at least 8 characters and a name
  of 2 to 50 characters. A body whose password is shorter than 8 characters, or whose
  name is shorter than 2 or longer than 50 characters, or in which either is not a
  string, is answered with the validation error and leaves the world as it was: the
  store is unchanged, and no call to the store or to the hasher was made.
\<close>

theorem signup_validates_first:
  "(fst (signup_endpoint L S env w body) = Inr t
      \<longrightarrow> (\<exists>p n. dict_get body ''password'' = PStr p \<and> dict_get body ''name'' = PStr n
                 \<and> 8 \<le> length p \<and> 2 \<le> length n \<and> length n \<le> 50))
   \<and> (dict_get body ''password'' = PStr p \<and> dict_get body ''name'' = PStr n
        \<and> (length p < 8 \<or> length n < 2 \<or> 50 < length n)
      \<longrightarrow> signup_endpoint L S env w body = (Inl RequestValidationError, w))
   \<and> ((\<forall>p. dict_get body ''password'' \<noteq> PStr p) \<or> (\<forall>n. dict_get body ''name'' \<noteq> PStr n)
      \<longrightarrow> signup_endpoint L S env w body = (Inl RequestValidationError, w))"
proof (intro conjI impI)
  assume acc: "fst (signup_endpoint L S env w body) = Inr t"
  then obtain uc where "validate_UserCreate L body = Inr uc"
    by (auto simp: signup_endpoint_def split: sum.splits)
  from validate_UserCreate_Inr [OF this]
  show "\<exists>p n. dict_get body ''password'' = PStr p \<and> dict_get body ''name'' = PStr n
                 \<and> 8 \<le> length p \<and> 2 \<le> length n \<and> length n \<le> 50"
    by blast
next
  assume "dict_get body ''password'' = PStr p \<and> dict_get body ''name'' = PStr n
        \<and> (length p < 8 \<or> length n < 2 \<or> 50 < length n)"
  then have "validate_UserCreate L body = Inl RequestValidationError"
    using validate_UserCreate_bounds by blast
  then show "signup_endpoint L S env w body = (Inl RequestValidationError, w)"
    by (simp add: signup_endpoint_def)
next
  assume "(\<forall>p. dict_get body ''password'' \<noteq> PStr p) \<or> (\<forall>n. dict_get body ''name'' \<noteq> PStr n)"
  then have "validate_UserCreate L body = Inl RequestValidationError"
    by (rule validate_UserCreate_not_str)
  then show "signup_endpoint L S env w body = (Inl RequestValidationError, w)"
    by (simp add: signup_endpoint_def)
qed

theorem signup_validates_first_witness:
  "signup_endpoint test_library test_settings (fst signup_a) empty_world
     [(''email'', PStr ''a@x.com''), (''password'', PStr ''short''), (''name'', PStr ''Al'')]
   = (Inl RequestValidationError, empty_world)
   \<and> signup_endpoint test_library test_settings (fst signup_a) empty_world
       [(''email'', PStr ''a@x.com''), (''password'', PStr ''longenough1''), (''name'', PStr ''A'')]
     = (Inl RequestValidationError, empty_world)
   \<and> signup_endpoint test_library test_settings (fst signup_a) empty_world
       [(''email'', PStr ''a@x.com''), (''password'', PInt 12345678), (''name'', PStr ''Al'')]
     = (Inl RequestValidationError, empty_world)
   \<and> fst (signup_endpoint test_library test_settings (fst signup_a) empty_world
           [(''email'', PStr ''a@x.com''), (''password'', PStr ''longenough1''),
            (''name'', PStr ''Al'')])
     = Inr \<lparr>access_token =
               spec_jwt_encode test_sign (alice_claim @ [(''exp'', PDatetime 1801000000)])
                 ''secret'' ''HS256'',
             token_type = ''bearer''\<rparr>
   \<and> (\<exists>p n. dict_get [(''email'', PStr ''a@x.com''), (''password'', PStr ''longenough1''),
                        (''name'', PStr ''Al'')] ''password'' = PStr p
            \<and> dict_get [(''email'', PStr ''a@x.com''), (''password'', PStr ''longenough1''),
                          (''name'', PStr ''Al'')] ''name'' = PStr n
            \<and> 8 \<le> length p \<and> 2 \<le> length n \<and> length n \<le> 50)"
proof -
  let ?short = "[(''email'', PStr ''a@x.com''), (''password'', PStr ''short''), (''name'', PStr ''Al'')]"
  let ?name = "[(''email'', PStr ''a@x.com''), (''password'', PStr ''longenough1''), (''name'', PStr ''A'')]"
  let ?int = "[(''email'', PStr ''a@x.com''), (''password'', PInt 12345678), (''name'', PStr ''Al'')]"
  let ?ok = "[(''email'', PStr ''a@x.com''), (''password'', PStr ''longenough1''),
              (''name'', PStr ''Al'')]"
  let ?t = "\<lparr>access_token =
               spec_jwt_encode test_sign (alice_claim @ [(''exp'', PDatetime 1801000000)])
                 ''secret'' ''HS256'',
             token_type = ''bearer''\<rparr>"
  have short: "signup_endpoint test_library test_settings (fst signup_a) empty_world ?short
          = (Inl RequestValidationError, empty_world)"
    using signup_validates_first
      [of test_library test_settings "fst signup_a" empty_world ?short undefined
          "''short''" "''Al''"]
    by (simp add: dict_get_def)
  have name: "signup_endpoint test_library test_settings (fst signup_a) empty_world ?name
          = (Inl RequestValidationError, empty_world)"
    using signup_validates_first
      [of test_library test_settings "fst signup_a" empty_world ?name undefined
          "''longenough1''" "''A''"]
    by (simp add: dict_get_def)
  have int: "signup_endpoint test_library test_settings (fst signup_a) empty_world ?int
          = (Inl RequestValidationError, empty_world)"
    using signup_validates_first
      [of test_library test_settings "fst signup_a" empty_world ?int undefined
          "''x''" "''Al''"]
    by (simp add: dict_get_def)
  have acc: "fst (signup_endpoint test_library test_settings (fst signup_a) empty_world ?ok)
          = Inr ?t"
    by (simp add: signup_endpoint_def validate_UserCreate_def signup_def signup_find_def
        signup_insert_def find_one_by_email_def insert_one_def get_password_hash_def
        empty_world_def signup_a_def test_defs Let_def)
  have bounds: "\<exists>p n. dict_get ?ok ''password'' = PStr p \<and> dict_get ?ok ''name'' = PStr n
                 \<and> 8 \<le> length p \<and> 2 \<le> length n \<and> length n \<le> 50"
    using signup_validates_first
      [of test_library test_settings "fst signup_a" empty_world ?ok ?t "''x''" "''Al''"]
      acc
    by blast
  from short name int acc bounds show ?thesis by blast
qed

section \<open>Two signups racing on one email\<close>

lemma signup_as_steps:
  "signup_step L S env uc (signup_step L S env uc (AtFindOne, w))
     = (case signup L S env w uc of (r, w') \<Rightarrow> (Returned r, w'))"
  by (simp add: signup_def split: prod.splits sum.splits)

text \<open>
  C8. Two signups for the same email, on a store started with the unique index, with a
  hasher that returns. When both run their duplicate check before either inserts, the
  first insert succeeds and the second raises \<open>DuplicateKeyError\<close>: one user is
  stored, but the second caller receives the 500 response of the general handler. When
  the second request starts after the first has finished, its duplicate check answers
  400 "Email already registered."
\<close>

theorem signup_race_internal_error:
  fixes L :: "('tok, string) library"
  shows "startup_db_client \<lparr>users = [], unique_indexes = []\<rparr> = Some (store empty_world)
   \<and> (case run_signups (L\<lparr>ctx_hash := \<lambda>entropy password. Inr (h entropy password)\<rparr>) S
             signup_a signup_b [True, False, True, False]
             (AtFindOne, AtFindOne, empty_world)
      of (a, b, w) \<Rightarrow>
           a = Returned (Inr \<lparr>access_token =
                   jwt_encode L
                     [(''email'', PStr ''a@x.com''),
                      (''user_id'', PStr (oid_str L ''65f0c0ffee0123456789abcd'')),
                      (''exp'', PDatetime 1801000000)]
                     (JWT_SECRET_KEY S) ''HS256'',
                 token_type = ''bearer''\<rparr>)
         \<and> b = Returned (Inl DuplicateKeyError)
         \<and> map doc_id (users (store w)) = [''65f0c0ffee0123456789abcd''])
   \<and> respond_token 201 (Inl DuplicateKeyError :: exn + 'tok Token)
       = ([UnhandledError DuplicateKeyError],
          JSONResponse 500
            (Detail ''An internal server error occurred. Please try again later.'') [])
   \<and> (case run_signups (L\<lparr>ctx_hash := \<lambda>entropy password. Inr (h entropy password)\<rparr>) S
             signup_a signup_b [True, True, False, False]
             (AtFindOne, AtFindOne, empty_world)
      of (a, b, w) \<Rightarrow>
           b = Returned (Inl (HTTPException 400 ''Email already registered.'' [])))"
  by (simp add: startup_db_client_def create_index_email_unique_def empty_world_def
      signup_a_def signup_b_def signup_find_def signup_insert_def find_one_by_email_def
      insert_one_def get_password_hash_def respond_token_def general_exception_handler_def
      create_access_token_def to_encode_def datetime_add_def datetime_min_def datetime_max_def
      ALGORITHM_def timedelta_minutes_def ACCESS_TOKEN_EXPIRE_MINUTES_def Let_def)

end
